theory Spec2Isabelle
  imports Main
begin

section \<open>Strings\<close>

text \<open>
  A Python \<open>str\<close> is modelled as a HOL \<open>string\<close>, one \<open>char\<close> per code point; the
  model is exact on ASCII text, which is what a clan tag is made of. The character tests
  below read the code point with \<open>of_char\<close>.
\<close>

definition code :: "char \<Rightarrow> nat" where
  "code c = of_char c"

text \<open>The regular expression class \<open>[a-zA-Z0-9_]\<close> of \<open>sanitize_filename\<close>.\<close>

definition is_word_char :: "char \<Rightarrow> bool" where
  "is_word_char c =
     ((97 \<le> code c \<and> code c \<le> 122) \<or> (65 \<le> code c \<and> code c \<le> 90) \<or>
      (48 \<le> code c \<and> code c \<le> 57) \<or> code c = 95)"

text \<open>
  \<open>re.sub(r'^#', '', tag)\<close>: without the MULTILINE flag \<open>^\<close> matches at the start of
  the string only, so at most one \<open>#\<close> is removed.
\<close>

fun strip_leading_hash :: "string \<Rightarrow> string" where
  "strip_leading_hash [] = []"
| "strip_leading_hash (c # cs) = (if c = CHR ''#'' then cs else c # cs)"

text \<open>\<open>re.sub(r'[^a-zA-Z0-9_]', '_', sanitized)\<close>: every other character becomes \<open>_\<close>.\<close>

definition replace_invalid :: "string \<Rightarrow> string" where
  "replace_invalid s = map (\<lambda>c. if is_word_char c then c else CHR ''_'') s"

definition sanitize_filename :: "string \<Rightarrow> string" where
  "sanitize_filename tag = replace_invalid (strip_leading_hash tag)"

section \<open>The clan tag typed by the operator\<close>

text \<open>
  The text of an input field can hold any code point of Unicode, more than a \<open>char\<close> of
  HOL has, so a typed text is a list of code points. \<open>text_of\<close> gives the text of a
  \<open>string\<close>.
\<close>

type_synonym utext = "nat list"

definition text_of :: "string \<Rightarrow> utext" where
  "text_of s = map code s"

text \<open>
  \<open>str.strip()\<close> removes the leading and the trailing white space: the code points on
  which \<open>str.isspace\<close> holds.
\<close>

definition is_space :: "nat \<Rightarrow> bool" where
  "is_space c =
     ((9 \<le> c \<and> c \<le> 13) \<or> (28 \<le> c \<and> c \<le> 32) \<or> c = 133 \<or> c = 160 \<or> c = 5760 \<or>
      (8192 \<le> c \<and> c \<le> 8202) \<or> c = 8232 \<or> c = 8233 \<or> c = 8239 \<or> c = 8287 \<or> c = 12288)"

definition py_strip :: "utext \<Rightarrow> utext" where
  "py_strip s = rev (dropWhile is_space (rev (dropWhile is_space s)))"

text \<open>
  \<open>str.upper()\<close> replaces every code point by its upper case in the Unicode database,
  which can be more than one code point (the sharp s U+00DF becomes \<open>SS\<close>). The mapping
  is written out up to U+00FF and at U+1E9E, the capital sharp s, which is its own upper
  case; on the other code points it is the parameter \<open>ucd\<close>.
\<close>

definition upper_of :: "(nat \<Rightarrow> utext) \<Rightarrow> nat \<Rightarrow> utext" where
  "upper_of ucd c =
     (if 97 \<le> c \<and> c \<le> 122 then [c - 32]
      else if c < 181 then [c]
      else if c = 181 then [924]
      else if c = 223 then [83, 83]
      else if (224 \<le> c \<and> c \<le> 246) \<or> (248 \<le> c \<and> c \<le> 254) then [c - 32]
      else if c = 255 then [376]
      else if c < 256 then [c]
      else if c = 7838 then [7838]
      else ucd c)"

definition py_upper :: "(nat \<Rightarrow> utext) \<Rightarrow> utext \<Rightarrow> utext" where
  "py_upper ucd s = concat (map (upper_of ucd) s)"

text \<open>
  Lines 173 to 179: the text typed into the clan tag field is stripped and upper-cased,
  and only that value is stored in the session and used afterwards.
\<close>

definition clan_tag_input :: "(nat \<Rightarrow> utext) \<Rightarrow> utext \<Rightarrow> utext" where
  "clan_tag_input ucd typed = py_upper ucd (py_strip typed)"

text \<open>
  \<open>sanitize_filename\<close> (lines 16 to 20) on a text of any code points: one leading \<open>#\<close>
  is removed and every code point outside \<open>[a-zA-Z0-9_]\<close> becomes \<open>_\<close>, so the result
  is an ASCII string. On the text of a \<open>string\<close> it is \<open>sanitize_filename\<close>.
\<close>

definition is_word_code :: "nat \<Rightarrow> bool" where
  "is_word_code c =
     ((97 \<le> c \<and> c \<le> 122) \<or> (65 \<le> c \<and> c \<le> 90) \<or> (48 \<le> c \<and> c \<le> 57) \<or> c = 95)"

definition sanitize_filename_text :: "utext \<Rightarrow> string" where
  "sanitize_filename_text tag =
     map (\<lambda>c. if is_word_code c then char_of c else CHR ''_'')
       (case tag of [] \<Rightarrow> [] | c # cs \<Rightarrow> if c = 35 then cs else c # cs)"

text \<open>
  Texts that differ only in letter case: the same length, and at each position the same
  code point or the small and the capital form of one letter. \<open>ascii_case_pair\<close> has
  the pairs of the ASCII letters, \<open>sharp_s_pair\<close> the small and the capital sharp s
  (U+00DF and U+1E9E).
\<close>

definition ascii_case_pair :: "nat \<Rightarrow> nat \<Rightarrow> bool" where
  "ascii_case_pair c d =
     ((97 \<le> c \<and> c \<le> 122 \<and> d + 32 = c) \<or> (97 \<le> d \<and> d \<le> 122 \<and> c + 32 = d))"

definition sharp_s_pair :: "nat \<Rightarrow> nat \<Rightarrow> bool" where
  "sharp_s_pair c d = ((c = 223 \<and> d = 7838) \<or> (c = 7838 \<and> d = 223))"

definition same_but_ascii_case :: "utext \<Rightarrow> utext \<Rightarrow> bool" where
  "same_but_ascii_case s t = list_all2 (\<lambda>c d. c = d \<or> ascii_case_pair c d) s t"

definition same_but_letter_case :: "utext \<Rightarrow> utext \<Rightarrow> bool" where
  "same_but_letter_case s t =
     list_all2 (\<lambda>c d. c = d \<or> ascii_case_pair c d \<or> sharp_s_pair c d) s t"

section \<open>Export file name\<close>

text \<open>
  \<open>datetime.now()\<close> is an input of the model. \<open>strftime("%Y%m%d_%H%M")\<close> writes the
  year on four digits and month, day, hour and minute on two (for the years 1000 to 9999
  that a clock gives).
\<close>

record datetime =
  year :: nat
  month :: nat
  day :: nat
  hour :: nat
  minute :: nat

definition digit :: "nat \<Rightarrow> char" where
  "digit d = char_of (48 + d mod 10)"

definition pad2 :: "nat \<Rightarrow> string" where
  "pad2 n = [digit (n div 10), digit n]"

definition pad4 :: "nat \<Rightarrow> string" where
  "pad4 n = [digit (n div 1000), digit (n div 100), digit (n div 10), digit n]"

definition strftime :: "datetime \<Rightarrow> string" where
  "strftime t = pad4 (year t) @ pad2 (month t) @ pad2 (day t) @ ''_'' @ pad2 (hour t) @ pad2 (minute t)"

text \<open>Lines 370 and 371.\<close>

definition download_filename :: "string \<Rightarrow> datetime \<Rightarrow> string" where
  "download_filename current_tag now =
     ''pendentes_'' @ sanitize_filename current_tag @ ''_'' @ strftime now @ ''.csv''"

section \<open>Python values and data frames\<close>

text \<open>
  What \<open>response.json()\<close> returns: \<open>None\<close>, booleans, integers, strings, lists and
  dictionaries. A dictionary is an association list with distinct keys, in insertion order.
  Floating-point numbers are not modelled (the remote API sends integers).
\<close>

datatype pyval =
    PNone
  | PBool bool
  | PInt int
  | PStr string
  | PList "pyval list"
  | PDict "(string \<times> pyval) list"

type_synonym pydict = "(string \<times> pyval) list"

datatype error =
    AttributeError
  | KeyError string
  | TypeError
  | NotRecords

text \<open>Python's truth value of an object, as \<open>if data\<close>, \<open>x or y\<close> and \<open>not x\<close> use it.\<close>

fun truthy :: "pyval \<Rightarrow> bool" where
  "truthy PNone = False"
| "truthy (PBool b) = b"
| "truthy (PInt n) = (n \<noteq> 0)"
| "truthy (PStr s) = (s \<noteq> [])"
| "truthy (PList xs) = (xs \<noteq> [])"
| "truthy (PDict d) = (d \<noteq> [])"

definition py_or :: "pyval \<Rightarrow> pyval \<Rightarrow> pyval" where
  "py_or a b = (if truthy a then a else b)"

text \<open>
  \<open>obj.get(key, default)\<close>: only a dictionary has the method; on any other object the
  attribute access raises \<open>AttributeError\<close>.
\<close>

fun py_get :: "pyval \<Rightarrow> string \<Rightarrow> pyval \<Rightarrow> error + pyval" where
  "py_get (PDict d) k dflt = Inr (case map_of d k of Some v \<Rightarrow> v | None \<Rightarrow> dflt)"
| "py_get _ k dflt = Inl AttributeError"

text \<open>
  A pandas \<open>DataFrame\<close>: the column labels in order, and the rows, each an association
  list from column label to cell. A cell is \<open>None\<close> when the value is missing (\<open>NaN\<close>);
  a JSON \<open>null\<close> is a missing cell too. The frames built from the API hold \<open>pyval\<close>
  cells, the frames of the contact store hold strings (\<open>dtype=str\<close>).
\<close>

record 'v dataframe =
  columns :: "string list"
  rows :: "(string \<times> 'v option) list list"

definition cell :: "(string \<times> 'v option) list \<Rightarrow> string \<Rightarrow> 'v option" where
  "cell r c = (case map_of r c of Some v \<Rightarrow> v | None \<Rightarrow> None)"

text \<open>\<open>pd.DataFrame()\<close> and \<open>pd.DataFrame(columns=[...])\<close>: no rows.\<close>

definition empty_frame :: "string list \<Rightarrow> 'v dataframe" where
  "empty_frame cs = \<lparr>columns = cs, rows = []\<rparr>"

text \<open>\<open>df.empty\<close>: one of the two axes has length zero.\<close>

definition df_empty :: "'v dataframe \<Rightarrow> bool" where
  "df_empty df = (columns df = [] \<or> rows df = [])"

text \<open>
  \<open>pd.DataFrame(list_of_dicts)\<close>: the columns are the keys of all the dictionaries in
  order of first appearance; a dictionary that lacks a key gets a missing cell there.
\<close>

fun uniq :: "'a list \<Rightarrow> 'a list" where
  "uniq [] = []"
| "uniq (x # xs) = x # filter (\<lambda>y. y \<noteq> x) (uniq xs)"

fun to_cell :: "pyval option \<Rightarrow> pyval option" where
  "to_cell None = None"
| "to_cell (Some PNone) = None"
| "to_cell (Some v) = Some v"

definition DataFrame :: "pydict list \<Rightarrow> pyval dataframe" where
  "DataFrame ds =
     (let cs = uniq (concat (map (map fst) ds))
      in \<lparr>columns = cs, rows = map (\<lambda>d. map (\<lambda>c. (c, to_cell (map_of d c))) cs) ds\<rparr>)"

text \<open>
  The JSON list handed to \<open>pd.DataFrame\<close> must be a list of objects, as the remote API
  sends; from any other list pandas builds a frame with positional columns, which the
  model does not follow: it stops with \<open>NotRecords\<close>.
\<close>

fun records_of :: "pyval list \<Rightarrow> pydict list option" where
  "records_of [] = Some []"
| "records_of (PDict d # xs) =
     (case records_of xs of None \<Rightarrow> None | Some ds \<Rightarrow> Some (d # ds))"
| "records_of (_ # xs) = None"

text \<open>\<open>df[c]\<close> and \<open>df[[c1, ...]]\<close>: a label that is not a column raises \<open>KeyError\<close>.\<close>

definition column :: "'v dataframe \<Rightarrow> string \<Rightarrow> error + 'v option list" where
  "column df c =
     (if c \<in> set (columns df) then Inr (map (\<lambda>r. cell r c) (rows df)) else Inl (KeyError c))"

definition project :: "string list \<Rightarrow> (string \<times> 'v option) list \<Rightarrow> (string \<times> 'v option) list" where
  "project cs r = map (\<lambda>c. (c, cell r c)) cs"

definition select :: "'v dataframe \<Rightarrow> string list \<Rightarrow> error + 'v dataframe" where
  "select df cs =
     (case filter (\<lambda>c. c \<notin> set (columns df)) cs of
        [] \<Rightarrow> Inr \<lparr>columns = cs, rows = map (project cs) (rows df)\<rparr>
      | c # _ \<Rightarrow> Inl (KeyError c))"

text \<open>\<open>df[c] = scalar\<close>: every row gets the value; a new label is appended to the columns.\<close>

definition set_column :: "string \<Rightarrow> 'v option \<Rightarrow> 'v dataframe \<Rightarrow> 'v dataframe" where
  "set_column c v df =
     (let cs = (if c \<in> set (columns df) then columns df else columns df @ [c])
      in \<lparr>columns = cs,
          rows = map (\<lambda>r. map (\<lambda>k. (k, if k = c then v else cell r k)) cs) (rows df)\<rparr>)"

text \<open>\<open>df.fillna(value)\<close> and \<open>df.fillna({column: value, ...})\<close>.\<close>

definition fillna :: "'v \<Rightarrow> 'v dataframe \<Rightarrow> 'v dataframe" where
  "fillna v df =
     \<lparr>columns = columns df,
      rows = map (\<lambda>r. map (\<lambda>c. (c, case cell r c of None \<Rightarrow> Some v | Some x \<Rightarrow> Some x))
                        (columns df)) (rows df)\<rparr>"

definition fillna_row :: "(string \<times> 'v) list \<Rightarrow> string list \<Rightarrow> (string \<times> 'v option) list \<Rightarrow> (string \<times> 'v option) list" where
  "fillna_row fills cs r =
     map (\<lambda>c. (c, case cell r c of None \<Rightarrow> map_of fills c | Some x \<Rightarrow> Some x)) cs"

definition fillna_cols :: "(string \<times> 'v) list \<Rightarrow> 'v dataframe \<Rightarrow> 'v dataframe" where
  "fillna_cols fills df =
     \<lparr>columns = columns df, rows = map (fillna_row fills (columns df)) (rows df)\<rparr>"

text \<open>\<open>df[mask]\<close> with a boolean mask computed row by row.\<close>

definition filter_rows :: "((string \<times> 'v option) list \<Rightarrow> bool) \<Rightarrow> 'v dataframe \<Rightarrow> 'v dataframe" where
  "filter_rows p df = \<lparr>columns = columns df, rows = filter p (rows df)\<rparr>"

text \<open>
  \<open>pd.merge(left, right, on='tag', how='left')\<close>: every row of \<open>left\<close>, in order, once
  for each row of \<open>right\<close> with the same \<open>tag\<close> (missing keys match each other), or once
  with missing cells in the columns of \<open>right\<close> when there is none. Both calls of the
  program merge frames whose only common column is \<open>tag\<close>, so no suffix is ever added.
\<close>

definition merge_left :: "'v dataframe \<Rightarrow> 'v dataframe \<Rightarrow> 'v dataframe" where
  "merge_left left right =
     (let extra = filter (\<lambda>c. c \<noteq> ''tag'') (columns right)
      in \<lparr>columns = columns left @ extra,
          rows = concat (map (\<lambda>l.
            (case filter (\<lambda>r. cell r ''tag'' = cell l ''tag'') (rows right) of
               [] \<Rightarrow> [project (columns left) l @ map (\<lambda>c. (c, None)) extra]
             | ms \<Rightarrow> map (\<lambda>r. project (columns left) l @ project extra r) ms)) (rows left))\<rparr>)"

text \<open>\<open>df.rename(columns={...})\<close>.\<close>

definition rename :: "(string \<times> string) list \<Rightarrow> 'v dataframe \<Rightarrow> 'v dataframe" where
  "rename m df =
     (let new = (\<lambda>c. case map_of m c of Some n \<Rightarrow> n | None \<Rightarrow> c)
      in \<lparr>columns = map new (columns df),
          rows = map (\<lambda>r. map (\<lambda>c. (new c, cell r c)) (columns df)) (rows df)\<rparr>)"

text \<open>
  The text cells of a frame of the contact store as Python values, for the merge with a
  frame built from the API.
\<close>

definition as_py :: "string dataframe \<Rightarrow> pyval dataframe" where
  "as_py df =
     \<lparr>columns = columns df,
      rows = map (\<lambda>r. map (\<lambda>c. (c, map_option PStr (cell r c))) (columns df)) (rows df)\<rparr>"

section \<open>What the operator sees\<close>

text \<open>
  Every Streamlit call that shows something is an event of a log. The texts of the source
  are Portuguese sentences; each one is a constructor here, with the values the source
  interpolates into it.
\<close>

datatype msg =
    Mkdir_failed
  | Api_connect_failed string
  | Api_403
  | Api_404
  | Api_detail nat
  | Api_not_json
  | Csv_load_failed string
  | Csv_save_failed string
  | Token_missing
  | Tag_invalid
  | Fetch_failed string
  | No_members_found string
  | Clan_loaded string
  | River_race
  | Race_state string
  | Fame
  | Participants_in_war
  | Repair_points
  | Pending_check
  | Pending_check_help
  | Generate_pending
  | Departed_with_zero_decks "string list"
  | None_pending
  | Pending_count nat
  | All_used_decks
  | No_participants
  | No_clan_detail
  | Race_detail string pyval
  | Not_in_river_race

datatype ui_event =
    St_error msg
  | St_warning msg
  | St_info msg
  | St_success msg
  | St_write msg
  | St_subheader msg
  | St_metric msg pyval
  | St_dataframe "pyval dataframe"
  | St_markdown_rule
  | St_button msg
  | St_download_button string "pyval dataframe"
  | Sidebar_error msg
  | Sidebar_warning msg

section \<open>The contact store on disk\<close>

text \<open>
  The file system as far as the program touches it: whether the directory
  \<open>dados_clas\<close> exists, whether \<open>os.makedirs\<close> and a write would succeed, and the files
  by path. A file is its text, or it is unreadable: a path that cannot be opened or
  decoded, on which \<open>read_csv\<close> raises an exception of the operating system.
\<close>

datatype stored_file = Unreadable | Text string

record fs =
  dir_exists :: bool
  mkdir_ok :: bool
  write_ok :: bool
  files :: "string \<Rightarrow> stored_file option"

definition PLAYER_DATA_DIR :: string where
  "PLAYER_DATA_DIR = ''dados_clas''"

text \<open>
  Lines 22 to 30. \<open>clan_csv_path\<close> is the \<open>os.path.join\<close> of line 30. The result of
  \<open>get_clan_csv_filename\<close> is the path (\<open>None\<close> when the directory cannot be created),
  the file system after the call and the messages shown.
\<close>

definition clan_csv_path :: "string \<Rightarrow> string" where
  "clan_csv_path clan_tag =
     PLAYER_DATA_DIR @ ''/'' @ ''dados_jogadores_'' @ sanitize_filename clan_tag @ ''.csv''"

definition get_clan_csv_filename :: "string \<Rightarrow> fs \<Rightarrow> string option \<times> fs \<times> ui_event list" where
  "get_clan_csv_filename clan_tag f =
     (if \<not> dir_exists f
      then (if mkdir_ok f then (Some (clan_csv_path clan_tag), f\<lparr>dir_exists := True\<rparr>, [])
            else (None, f, [St_error Mkdir_failed]))
      else (Some (clan_csv_path clan_tag), f, []))"

text \<open>
  What \<open>pd.read_csv(filepath, dtype={'tag': str, 'name': str, 'phone': str})\<close> can do:
  raise \<open>FileNotFoundError\<close>, \<open>EmptyDataError\<close> or another exception, or return a frame.
  A cell of the frame is the text read, or missing.
\<close>

datatype read_result = FileNotFoundError | EmptyDataError | OtherException | Frame "string dataframe"

text \<open>
  The CSV reader and writer of pandas are inputs of the model: \<open>read_text\<close> is what
  \<open>read_csv\<close> makes of the text of a file, \<open>to_csv\<close> the text that
  \<open>df.to_csv(filepath, index=False, encoding='utf-8')\<close> writes. What is proved of the
  functions below holds for every reader and writer.
\<close>

record pandas =
  read_text :: "string \<Rightarrow> read_result"
  to_csv :: "string dataframe \<Rightarrow> string"

definition read_csv :: "pandas \<Rightarrow> fs \<Rightarrow> string \<Rightarrow> read_result" where
  "read_csv pd f path =
     (case files f path of
        None \<Rightarrow> FileNotFoundError
      | Some Unreadable \<Rightarrow> OtherException
      | Some (Text t) \<Rightarrow> read_text pd t)"

definition schema :: "string list" where
  "schema = [''tag'', ''name'', ''phone'']"

text \<open>Lines 91 to 110.\<close>

definition load_player_data :: "pandas \<Rightarrow> string \<Rightarrow> fs \<Rightarrow> string dataframe \<times> fs \<times> ui_event list" where
  "load_player_data pd clan_tag f =
     (case get_clan_csv_filename clan_tag f of
        (None, f', log) \<Rightarrow> (empty_frame schema, f', log)
      | (Some filepath, f', log) \<Rightarrow>
          (case read_csv pd f' filepath of
             Frame df \<Rightarrow>
               (let df1 = fold (\<lambda>col d. if col \<notin> set (columns d) then set_column col (Some '''') d else d)
                            schema df;
                    df2 = fillna '''' df1
                in (\<lparr>columns = schema, rows = map (project schema) (rows df2)\<rparr>, f', log))
           | FileNotFoundError \<Rightarrow> (empty_frame schema, f', log)
           | EmptyDataError \<Rightarrow> (empty_frame schema, f', log)
           | OtherException \<Rightarrow> (empty_frame schema, f', log @ [St_error (Csv_load_failed filepath)])))"

text \<open>
  Lines 119 to 127. \<open>df_to_save\<close> starts with the three schema columns and no row. The
  first column copied from \<open>df\<close> gives it the rows of \<open>df\<close>; a column set to the scalar
  \<open>''\<close> before that has no row to fill and is completed with missing cells then. So
  when \<open>df\<close> has none of the three columns, \<open>df_to_save\<close> keeps no row at all. What is
  missing at the end is filled with the empty string. The only caller passes the table
  that \<open>st.data_editor\<close> returns, whose columns are text columns.
\<close>

definition df_to_save :: "string dataframe \<Rightarrow> string dataframe" where
  "df_to_save df =
     fillna ''''
       \<lparr>columns = schema,
        rows = (if list_ex (\<lambda>col. col \<in> set (columns df)) schema
                then map (\<lambda>r. map (\<lambda>col. (col, if col \<in> set (columns df) then cell r col
                                                  else None)) schema) (rows df)
                else [])\<rparr>"

text \<open>Lines 112 to 130.\<close>

definition save_player_data :: "pandas \<Rightarrow> string dataframe \<Rightarrow> string \<Rightarrow> fs \<Rightarrow> fs \<times> ui_event list" where
  "save_player_data pd df clan_tag f =
     (case get_clan_csv_filename clan_tag f of
        (None, f', log) \<Rightarrow> (f', log)
      | (Some filepath, f', log) \<Rightarrow>
          (if write_ok f'
           then (f'\<lparr>files := (files f')(filepath \<mapsto> Text (to_csv pd (df_to_save df)))\<rparr>, log)
           else (f', log @ [St_error (Csv_save_failed filepath)])))"

section \<open>The CSV text of pandas\<close>

text \<open>
  A model of the writer and of the reader that \<open>save_player_data\<close> and
  \<open>load_player_data\<close> call, on a POSIX system (the line terminator of \<open>to_csv\<close> is
  \<open>os.linesep\<close>). The file is UTF-8 text; a \<open>char\<close> is a code point.
\<close>

abbreviation LF :: char where "LF \<equiv> CHR 0x0A"
abbreviation CR :: char where "CR \<equiv> CHR 0x0D"
abbreviation DQ :: char where "DQ \<equiv> CHR 0x22"
abbreviation NUL :: char where "NUL \<equiv> CHR 0x00"
abbreviation TAB :: char where "TAB \<equiv> CHR 0x09"

text \<open>
  \<open>df.to_csv(filepath, index=False)\<close> hands the header and the rows to \<open>csv.writer\<close>
  with minimal quoting: a field is put between double quotes, with every double quote in
  it doubled, when it holds a comma, a double quote or a character of the line
  terminator. Whether a carriage return is quoted too depends on the version of the
  \<open>csv\<close> module: \<open>quote_cr\<close> says so. A missing cell is written as the empty field,
  and a row that is one empty field as \<open>""\<close>.
\<close>

definition needs_quote :: "bool \<Rightarrow> string \<Rightarrow> bool" where
  "needs_quote quote_cr x =
     list_ex (\<lambda>c. c = CHR '','' \<or> c = DQ \<or> c = LF \<or> (quote_cr \<and> c = CR)) x"

definition csv_field :: "bool \<Rightarrow> string \<Rightarrow> string" where
  "csv_field quote_cr x =
     (if needs_quote quote_cr x
      then DQ # concat (map (\<lambda>c. if c = DQ then [DQ, DQ] else [c]) x) @ [DQ]
      else x)"

fun join_fields :: "string list \<Rightarrow> string" where
  "join_fields [] = []"
| "join_fields [x] = x"
| "join_fields (x # y # ys) = x @ CHR '','' # join_fields (y # ys)"

definition csv_row :: "bool \<Rightarrow> string list \<Rightarrow> string" where
  "csv_row quote_cr xs =
     (if xs = [[]] then [DQ, DQ, LF]
      else join_fields (map (csv_field quote_cr) xs) @ [LF])"

definition to_csv_text :: "bool \<Rightarrow> string dataframe \<Rightarrow> string" where
  "to_csv_text quote_cr df =
     csv_row quote_cr (columns df) @
     concat (map (\<lambda>r. csv_row quote_cr
                          (map (\<lambda>c. case cell r c of None \<Rightarrow> [] | Some x \<Rightarrow> x) (columns df)))
                 (rows df))"

text \<open>
  \<open>pd.read_csv\<close> cuts the text into lines of fields with the tokenizer of its C
  parser: a state, the field being read, the fields of the line being read and the lines
  read. A line ends at a line feed, at a carriage return, or at both; an empty line and a
  line of blanks are skipped; a field that starts with a double quote goes to the closing
  quote, a doubled quote standing for one. After a carriage return that ends a line the
  tokenizer reads the next character again, and a comma or a blank there takes it through
  paths that this model does not follow: the state is \<open>Unmodelled\<close> from then on.
\<close>

datatype tstate =
    Start_record
  | Start_field
  | In_field
  | In_quoted
  | Quote_in_quoted
  | Eat_crnl
  | Eat_crnl_nop
  | Whitespace_line
  | Unmodelled

type_synonym tokenizer = "tstate \<times> string \<times> string list \<times> string list list"

definition start_field :: "string list \<Rightarrow> string list list \<Rightarrow> char \<Rightarrow> tokenizer" where
  "start_field fs ls c =
     (if c = LF then (Start_record, [], [], ls @ [fs @ [[]]])
      else if c = CR then (Eat_crnl, [], fs @ [[]], ls)
      else if c = DQ then (In_quoted, [], fs, ls)
      else if c = CHR '','' then (Start_field, [], fs @ [[]], ls)
      else (In_field, [c], fs, ls))"

definition start_record :: "bool \<Rightarrow> string list list \<Rightarrow> char \<Rightarrow> tokenizer" where
  "start_record again ls c =
     (if c = LF then (Start_record, [], [], ls)
      else if c = CR then (Eat_crnl_nop, [], [], ls)
      else if c = CHR '' '' \<or> c = TAB
      then (if again then (Unmodelled, [], [], ls) else (Whitespace_line, [c], [], ls))
      else start_field [] ls c)"

definition in_field :: "string \<Rightarrow> string list \<Rightarrow> string list list \<Rightarrow> char \<Rightarrow> tokenizer" where
  "in_field cur fs ls c =
     (if c = LF then (Start_record, [], [], ls @ [fs @ [cur]])
      else if c = CR then (Eat_crnl, [], fs @ [cur], ls)
      else if c = CHR '','' then (Start_field, [], fs @ [cur], ls)
      else (In_field, cur @ [c], fs, ls))"

fun step :: "tokenizer \<Rightarrow> char \<Rightarrow> tokenizer" where
  "step (Start_record, cur, fs, ls) c = start_record False ls c"
| "step (Start_field, cur, fs, ls) c = start_field fs ls c"
| "step (In_field, cur, fs, ls) c = in_field cur fs ls c"
| "step (In_quoted, cur, fs, ls) c =
     (if c = DQ then (Quote_in_quoted, cur, fs, ls) else (In_quoted, cur @ [c], fs, ls))"
| "step (Quote_in_quoted, cur, fs, ls) c =
     (if c = DQ then (In_quoted, cur @ [DQ], fs, ls) else in_field cur fs ls c)"
| "step (Eat_crnl, cur, fs, ls) c =
     (if c = LF then (Start_record, [], [], ls @ [fs])
      else if c = CHR '','' then (Unmodelled, [], [], ls)
      else start_record True (ls @ [fs]) c)"
| "step (Eat_crnl_nop, cur, fs, ls) c =
     (if c = LF then (Start_record, [], [], ls)
      else if c = CHR '','' then (Unmodelled, [], [], ls)
      else start_record True ls c)"
| "step (Whitespace_line, cur, fs, ls) c =
     (if c = LF then (Start_record, [], [], ls)
      else if c = CR then (Eat_crnl_nop, [], [], ls)
      else if c = CHR '' '' \<or> c = TAB then (Whitespace_line, cur @ [c], fs, ls)
      else in_field cur fs ls c)"
| "step (Unmodelled, cur, fs, ls) c = (Unmodelled, cur, fs, ls)"

text \<open>
  At the end of the text the line being read is closed. The end inside a quoted field is
  a \<open>ParserError\<close>.
\<close>

datatype tokens = Tokens "string list list" | Eof_inside_string | Not_modelled

fun at_eof :: "tokenizer \<Rightarrow> tokens" where
  "at_eof (Start_record, cur, fs, ls) = Tokens ls"
| "at_eof (Whitespace_line, cur, fs, ls) = Tokens ls"
| "at_eof (Eat_crnl_nop, cur, fs, ls) = Tokens ls"
| "at_eof (Eat_crnl, cur, fs, ls) = Tokens (ls @ [fs])"
| "at_eof (In_quoted, cur, fs, ls) = Eof_inside_string"
| "at_eof (Unmodelled, cur, fs, ls) = Not_modelled"
| "at_eof (_, cur, fs, ls) = Tokens (ls @ [fs @ [cur]])"

definition tokenize :: "string \<Rightarrow> tokens" where
  "tokenize t = at_eof (foldl step (Start_record, [], [], []) t)"

text \<open>
  The strings that \<open>pd.read_csv\<close> reads as a missing value by default; \<open>dtype=str\<close>
  does not switch this off. The parser holds a field as a C string, so a field ends at
  its first NUL character.
\<close>

definition STR_NA_VALUES :: "string list" where
  "STR_NA_VALUES =
     ['''', ''#N/A'', ''#N/A N/A'', ''#NA'', ''-1.#IND'', ''-1.#QNAN'', ''-NaN'', ''-nan'',
      ''1.#IND'', ''1.#QNAN'', ''<NA>'', ''N/A'', ''NA'', ''NULL'', ''NaN'', ''None'',
      ''n/a'', ''nan'', ''null'']"

definition parse_field :: "string \<Rightarrow> string option" where
  "parse_field x =
     (let s = takeWhile (\<lambda>c. c \<noteq> NUL) x in if s \<in> set STR_NA_VALUES then None else Some s)"

text \<open>
  \<open>pd.read_csv(filepath, dtype={'tag': str, 'name': str, 'phone': str})\<close> on the text
  of a file. A text without a line raises \<open>EmptyDataError\<close>. The first line is the
  header; a line with fewer fields than the header is completed with missing cells. The
  model follows the reader on the files whose header is made of distinct labels among
  \<open>tag\<close>, \<open>name\<close> and \<open>phone\<close> and whose lines have no more fields than the header;
  on any other text (labels that pandas renames, columns whose type it infers, leading
  fields that it takes as an index) the result is \<open>None\<close>: the model says nothing.
\<close>

definition read_csv_text :: "string \<Rightarrow> read_result option" where
  "read_csv_text t =
     (case tokenize t of
        Not_modelled \<Rightarrow> None
      | Eof_inside_string \<Rightarrow> Some OtherException
      | Tokens [] \<Rightarrow> Some EmptyDataError
      | Tokens (header # body) \<Rightarrow>
          (if distinct header \<and> set header \<subseteq> {''tag'', ''name'', ''phone''} \<and>
              list_all (\<lambda>xs. length xs \<le> length header) body
           then Some (Frame \<lparr>columns = header,
                             rows = map (\<lambda>xs. map (\<lambda>c. (c, case map_of (zip header xs) c of
                                                                   None \<Rightarrow> None
                                                                 | Some x \<Rightarrow> parse_field x))
                                                       header) body\<rparr>)
           else None))"

text \<open>
  A pandas whose writer is the one above and whose reader does what the model says where
  the model says something.
\<close>

definition pandas_csv :: "bool \<Rightarrow> pandas \<Rightarrow> bool" where
  "pandas_csv quote_cr pd =
     (to_csv pd = to_csv_text quote_cr \<and>
      (\<forall>t r. read_csv_text t = Some r \<longrightarrow> read_text pd t = r))"

section \<open>The remote API\<close>

text \<open>
  What \<open>requests.get\<close>, \<open>raise_for_status\<close> and \<open>response.json()\<close> can do together:
  give the decoded body of a successful response; raise a \<open>RequestException\<close> that
  carries no response (connection error, timeout, a body that is not JSON); or raise one
  that carries the response of a failed status, whose body is JSON or not.
\<close>

datatype http_outcome =
    Json pyval
  | No_response
  | Bad_status nat "pyval option"

text \<open>
  The surroundings of the calls: the environment variable \<open>CLASH_ROYALE_API_TOKEN\<close>,
  the remote system (by URL and bearer token) and \<open>urllib.parse.quote\<close>.
\<close>

record env =
  getenv_token :: "string option"
  http_get :: "string \<Rightarrow> string \<Rightarrow> http_outcome"
  quote :: "string \<Rightarrow> string"

definition BASE_API_URL :: string where
  "BASE_API_URL = ''https://api.clashroyale.com/v1''"

text \<open>Lines 34 to 41: the bearer token of the header, or \<open>None\<close>.\<close>

definition get_api_headers :: "env \<Rightarrow> string option \<Rightarrow> string option" where
  "get_api_headers e user_api_token =
     (let api_token = (case user_api_token of
                         Some t \<Rightarrow> if t \<noteq> [] then Some t else getenv_token e
                       | None \<Rightarrow> getenv_token e)
      in case api_token of
           None \<Rightarrow> None
         | Some t \<Rightarrow> if t = [] then None else Some t)"

text \<open>
  Lines 43 to 72. Inside the handler, \<open>error_detail.get\<close> is called on the decoded
  body of the failed response: a body that is JSON but not an object raises
  \<open>AttributeError\<close>, which nothing catches.
\<close>

definition fetch_api_data :: "env \<Rightarrow> string \<Rightarrow> string option \<Rightarrow> (error + pyval) \<times> ui_event list" where
  "fetch_api_data e endpoint user_api_token =
     (case get_api_headers e user_api_token of
        None \<Rightarrow> (Inr PNone, [])
      | Some token \<Rightarrow>
          (let url = BASE_API_URL @ ''/'' @ endpoint
           in case http_get e url token of
                Json v \<Rightarrow> (Inr v, [])
              | No_response \<Rightarrow> (Inr PNone, [St_error (Api_connect_failed url)])
              | Bad_status status None \<Rightarrow>
                  (Inr PNone, [St_error (Api_connect_failed url), St_error Api_not_json])
              | Bad_status status (Some (PDict d)) \<Rightarrow>
                  (Inr PNone,
                   [St_error (Api_connect_failed url),
                    St_error (if status = 403 then Api_403
                              else if status = 404 then Api_404
                              else Api_detail status)])
              | Bad_status status (Some _) \<Rightarrow>
                  (Inl AttributeError, [St_error (Api_connect_failed url)])))"

text \<open>Lines 74 to 80.\<close>

definition get_clan_members :: "env \<Rightarrow> string \<Rightarrow> string option \<Rightarrow> (error + pyval) \<times> ui_event list" where
  "get_clan_members e clan_tag user_api_token =
     (let encoded_tag = quote e clan_tag;
          endpoint = ''clans/'' @ encoded_tag @ ''/members''
      in case fetch_api_data e endpoint user_api_token of
           (Inl err, log) \<Rightarrow> (Inl err, log)
         | (Inr data, log) \<Rightarrow>
             (if truthy data then py_get data ''items'' (PList []) else Inr (PList []), log))"

text \<open>Lines 82 to 87.\<close>

definition get_current_river_race :: "env \<Rightarrow> string \<Rightarrow> string option \<Rightarrow> (error + pyval) \<times> ui_event list" where
  "get_current_river_race e clan_tag user_api_token =
     (let encoded_tag = quote e clan_tag;
          endpoint = ''clans/'' @ encoded_tag @ ''/currentriverrace''
      in case fetch_api_data e endpoint user_api_token of
           (Inl err, log) \<Rightarrow> (Inl err, log)
         | (Inr data, log) \<Rightarrow> (Inr (py_or data (PDict [])), log))"

section \<open>The session and the fetch button\<close>

text \<open>
  \<open>st.session_state\<close>: the two inputs of the sidebar, the three entries the fetch
  writes (\<open>None\<close> when the key is absent) and the keys of the data editors that hold
  widget state.
\<close>

record session =
  api_token :: string
  clan_tag :: string
  members_data :: "pyval option"
  river_race_data :: "pyval option"
  data_loaded_for_tag :: "string option"
  editor_keys :: "string set"

text \<open>How the script run ends: it goes on to the display, stops, reruns or raises.\<close>

datatype control = Continue | Stop | Rerun | Raised error

text \<open>
  Lines 182 to 224, when the button is pressed. The two fetches run one after the other
  inside the spinner; an exception of either ends the run.
\<close>

definition fetch_button :: "env \<Rightarrow> session \<Rightarrow> session \<times> ui_event list \<times> control" where
  "fetch_button e ss =
     (if api_token ss = [] then (ss, [Sidebar_error Token_missing], Stop)
      else if clan_tag ss = [] \<or> hd (clan_tag ss) \<noteq> CHR ''#''
      then (ss, [Sidebar_warning Tag_invalid], Stop)
      else
        (let tag = clan_tag ss;
             user_api_token = Some (api_token ss)
         in case get_clan_members e tag user_api_token of
              (Inl err, log1) \<Rightarrow> (ss, log1, Raised err)
            | (Inr members, log1) \<Rightarrow>
                (case get_current_river_race e tag user_api_token of
                   (Inl err, log2) \<Rightarrow> (ss, log1 @ log2, Raised err)
                 | (Inr race, log2) \<Rightarrow>
                     (if members = PNone
                      then (ss\<lparr>members_data := None, river_race_data := None,
                                data_loaded_for_tag := None\<rparr>,
                            log1 @ log2 @ [St_error (Fetch_failed tag)], Stop)
                      else if \<not> truthy members
                      then (ss\<lparr>members_data := Some (PList []),
                                river_race_data := Some (py_or race (PDict [])),
                                data_loaded_for_tag := Some tag\<rparr>,
                            log1 @ log2 @ [St_warning (No_members_found tag)], Continue)
                      else (ss\<lparr>members_data := Some members,
                                river_race_data := Some (py_or race (PDict [])),
                                data_loaded_for_tag := Some tag,
                                editor_keys := editor_keys ss
                                  - {''data_editor_phones_'' @ sanitize_filename tag}\<rparr>,
                            log1 @ log2 @ [St_success (Clan_loaded tag)], Rerun)))))"

section \<open>The display: members and their phones\<close>

text \<open>An exception ends the computation; \<open>try_then\<close> passes a result on or the exception up.\<close>

definition try_then :: "error + 'a \<Rightarrow> ('a \<Rightarrow> error + 'b) \<Rightarrow> error + 'b" where
  "try_then m k = (case m of Inl e \<Rightarrow> Inl e | Inr x \<Rightarrow> k x)"

text \<open>\<open>len(x)\<close>: defined on strings, lists and dictionaries, \<open>TypeError\<close> otherwise.\<close>

fun py_len :: "pyval \<Rightarrow> error + nat" where
  "py_len (PStr s) = Inr (length s)"
| "py_len (PList xs) = Inr (length xs)"
| "py_len (PDict d) = Inr (length d)"
| "py_len _ = Inl TypeError"

text \<open>
  \<open>pd.DataFrame(x)\<close> for a JSON list of objects \<open>x\<close>; any other value is outside the
  schema of the remote API and ends with \<open>NotRecords\<close>.
\<close>

definition frame_of :: "pyval \<Rightarrow> error + pyval dataframe" where
  "frame_of x =
     (case x of
        PList xs \<Rightarrow> (case records_of xs of Some ds \<Rightarrow> Inr (DataFrame ds) | None \<Rightarrow> Inl NotRecords)
      | _ \<Rightarrow> Inl NotRecords)"

text \<open>Line 237: \<open>pd.DataFrame(members_data) if members_data else pd.DataFrame()\<close>.\<close>

definition members_df :: "pyval \<Rightarrow> error + pyval dataframe" where
  "members_df members = (if truthy members then frame_of members else Inr (empty_frame []))"

text \<open>Line 238: \<open>set(members_df['tag']) if not members_df.empty else set()\<close>.\<close>

definition current_member_tags :: "pyval dataframe \<Rightarrow> error + pyval option set" where
  "current_member_tags mdf =
     (if \<not> df_empty mdf then try_then (column mdf ''tag'') (\<lambda>tags. Inr (set tags)) else Inr {})"


section \<open>The display: the river race and the pending attacks\<close>

text \<open>
  Lines 312 to 315: the frame of the participants; the column \<open>decksUsedToday\<close> is added
  with the value 0 when no participant has the key.
\<close>

definition participants_df :: "pyval \<Rightarrow> error + pyval dataframe" where
  "participants_df participants =
     try_then (frame_of participants) (\<lambda>df.
       Inr (if ''decksUsedToday'' \<notin> set (columns df)
            then set_column ''decksUsedToday'' (Some (PInt 0)) df else df))"

text \<open>
  \<open>participants_df['decksUsedToday'] == 0\<close>, cell by cell: true on the integer 0 (and on
  \<open>False\<close>, which Python takes as equal to 0), false on every other value and on a
  missing cell.
\<close>

fun eq_zero :: "pyval option \<Rightarrow> bool" where
  "eq_zero (Some (PInt n)) = (n = 0)"
| "eq_zero (Some (PBool b)) = (\<not> b)"
| "eq_zero _ = False"

text \<open>Line 331.\<close>

definition missing_attack_today :: "pyval dataframe \<Rightarrow> pyval dataframe" where
  "missing_attack_today pdf = filter_rows (\<lambda>r. eq_zero (cell r ''decksUsedToday'')) pdf"

text \<open>Line 334: \<open>set(missing_attack_today['tag'])\<close>.\<close>

definition missing_tags_today :: "pyval dataframe \<Rightarrow> pyval option set" where
  "missing_tags_today pdf = set (map (\<lambda>r. cell r ''tag'') (rows (missing_attack_today pdf)))"

text \<open>Lines 337 and 338.\<close>

definition verified_missing_tags :: "pyval option set \<Rightarrow> pyval dataframe \<Rightarrow> pyval option set" where
  "verified_missing_tags member_tags pdf = missing_tags_today pdf \<inter> member_tags"

definition unverified_tags :: "pyval option set \<Rightarrow> pyval dataframe \<Rightarrow> pyval option set" where
  "unverified_tags member_tags pdf = missing_tags_today pdf - member_tags"

text \<open>
  Lines 342 and 343: the names of the rows whose tag is unverified, joined with
  \<open>', '.join\<close>, which raises \<open>TypeError\<close> on a name that is not a string.
\<close>

fun strings_of :: "pyval option list \<Rightarrow> string list option" where
  "strings_of [] = Some []"
| "strings_of (Some (PStr s) # xs) =
     (case strings_of xs of None \<Rightarrow> None | Some ss \<Rightarrow> Some (s # ss))"
| "strings_of (_ # xs) = None"

definition names_unverified :: "pyval option set \<Rightarrow> pyval dataframe \<Rightarrow> pyval option list" where
  "names_unverified member_tags pdf =
     map (\<lambda>r. cell r ''name'')
       (filter (\<lambda>r. cell r ''tag'' \<in> unverified_tags member_tags pdf)
          (rows (missing_attack_today pdf)))"

text \<open>Line 349: the rows of the zero-deck frame whose tag is verified, with tag and name.\<close>

definition verified_missing_players_info :: "pyval option set \<Rightarrow> pyval dataframe \<Rightarrow> error + pyval dataframe" where
  "verified_missing_players_info member_tags pdf =
     select (filter_rows (\<lambda>r. cell r ''tag'' \<in> verified_missing_tags member_tags pdf)
               (missing_attack_today pdf)) [''tag'', ''name'']"

text \<open>Lines 355 to 360.\<close>

definition missing_players_with_phones :: "pyval dataframe \<Rightarrow> string dataframe \<Rightarrow> error + pyval dataframe" where
  "missing_players_with_phones info player_phone_data =
     try_then (select (as_py player_phone_data) [''tag'', ''phone'']) (\<lambda>phones.
       Inr (fillna_cols [(''phone'', PStr ''N/A'')] (merge_left info phones)))"

text \<open>Line 363.\<close>

definition final_missing_list :: "pyval dataframe \<Rightarrow> error + pyval dataframe" where
  "final_missing_list with_phones =
     try_then (select with_phones [''name'', ''phone'']) (\<lambda>df.
       Inr (rename [(''name'', ''Nome''), (''phone'', ''Telefone'')] df))"

text \<open>
  Lines 330 to 381, what the button \<open>Gerar Lista de Pendentes\<close> computes and shows. The
  download button carries the exported frame (whose CSV text \<open>convert_df_to_csv\<close> makes)
  and the file name.
\<close>

definition pending_report ::
  "pandas \<Rightarrow> pyval dataframe \<Rightarrow> pyval option set \<Rightarrow> string \<Rightarrow> datetime \<Rightarrow> fs \<Rightarrow> error + fs \<times> ui_event list" where
  "pending_report pd pdf member_tags current_tag now f =
     (if \<not> df_empty (missing_attack_today pdf)
      then
        try_then
          (if unverified_tags member_tags pdf \<noteq> {}
           then (case strings_of (names_unverified member_tags pdf) of
                   None \<Rightarrow> Inl TypeError
                 | Some names \<Rightarrow> Inr [St_warning (Departed_with_zero_decks names)])
           else Inr []) (\<lambda>warned.
        if verified_missing_tags member_tags pdf = {}
        then Inr (f, warned @ [St_success None_pending])
        else
          try_then (verified_missing_players_info member_tags pdf) (\<lambda>info.
          (case load_player_data pd current_tag f of
             (player_phone_data, f', log) \<Rightarrow>
               try_then (missing_players_with_phones info player_phone_data) (\<lambda>with_phones.
               try_then (final_missing_list with_phones) (\<lambda>final.
                 Inr (f', warned @ log @
                       [St_write (Pending_count (length (rows final))),
                        St_dataframe final,
                        St_download_button (download_filename current_tag now) final]))))))
      else Inr (f, [St_success All_used_decks]))"

text \<open>Lines 311 to 383: the participants of the race, and the report when the button is pressed.\<close>

definition participants_section ::
  "pandas \<Rightarrow> pyval \<Rightarrow> pyval option set \<Rightarrow> bool \<Rightarrow> string \<Rightarrow> datetime \<Rightarrow> fs \<Rightarrow> error + fs \<times> ui_event list" where
  "participants_section pd participants member_tags pressed current_tag now f =
     (if truthy participants
      then
        try_then (participants_df participants) (\<lambda>pdf.
        try_then (select pdf [''tag'', ''name'', ''fame'', ''repairPoints'', ''boatAttacks'',
                              ''decksUsedToday'']) (\<lambda>shown.
        (let head = [St_dataframe
                       (rename [(''tag'', ''Tag''), (''name'', ''Nome''), (''fame'', ''Fama''),
                                (''repairPoints'', ''Reparos''), (''boatAttacks'', ''Ataques Barco''),
                                (''decksUsedToday'', ''Decks Usados Hoje'')] shown),
                     St_subheader Pending_check, St_info Pending_check_help,
                     St_button Generate_pending]
         in if pressed
            then try_then (pending_report pd pdf member_tags current_tag now f)
                   (\<lambda>(f', shown'). Inr (f', head @ shown'))
            else Inr (f, head))))
      else Inr (f, [St_write No_participants]))"

text \<open>Lines 304 to 385: the clan entry of the race.\<close>

definition clan_section ::
  "pandas \<Rightarrow> pyval \<Rightarrow> pyval option set \<Rightarrow> bool \<Rightarrow> string \<Rightarrow> datetime \<Rightarrow> fs \<Rightarrow> error + fs \<times> ui_event list" where
  "clan_section pd clan_info member_tags pressed current_tag now f =
     (if truthy clan_info
      then
        try_then (py_get clan_info ''fame'' (PInt 0)) (\<lambda>fame.
        try_then (py_get clan_info ''participants'' (PList [])) (\<lambda>participants.
        try_then (py_len participants) (\<lambda>n.
        try_then (py_get clan_info ''repairPoints'' (PInt 0)) (\<lambda>repair.
        try_then (participants_section pd participants member_tags pressed current_tag now f)
          (\<lambda>(f', shown).
             Inr (f', [St_metric Fame fame, St_metric Participants_in_war (PInt (int n)),
                       St_metric Repair_points repair] @ shown))))))
      else Inr (f, [St_write No_clan_detail]))"

text \<open>
  Lines 299 to 395, the right column. \<open>state.replace('_', ' ').title()\<close> needs a
  string; the message carries the state as the API gave it.
\<close>

definition river_race_panel ::
  "pandas \<Rightarrow> pyval \<Rightarrow> pyval option set \<Rightarrow> bool \<Rightarrow> string \<Rightarrow> datetime \<Rightarrow> fs \<Rightarrow> error + fs \<times> ui_event list" where
  "river_race_panel pd race member_tags pressed current_tag now f =
     (if truthy race
      then
        try_then (py_get race ''state'' PNone) (\<lambda>sentinel.
        if sentinel \<noteq> PStr ''notInWar''
        then
          try_then (py_get race ''state'' (PStr ''N/A'')) (\<lambda>state.
          (case state of
             PStr s \<Rightarrow>
               try_then (py_get race ''clan'' PNone) (\<lambda>clan_info.
               try_then (clan_section pd clan_info member_tags pressed current_tag now f)
                 (\<lambda>(f', shown).
               try_then (py_get race ''sectionIndex'' (PStr ''N/A'')) (\<lambda>section_index.
               try_then (py_get race ''periodIndex'' (PStr ''N/A'')) (\<lambda>period_index.
               try_then (py_get race ''periodType'' (PStr ''N/A'')) (\<lambda>period_type.
               try_then (py_get race ''warEndTime'' (PStr ''N/A'')) (\<lambda>war_end.
                 Inr (f', [St_subheader River_race, St_write (Race_state s)] @ shown @
                          [St_markdown_rule,
                           St_write (Race_detail ''sectionIndex'' section_index),
                           St_write (Race_detail ''periodIndex'' period_index),
                           St_write (Race_detail ''periodType'' period_type),
                           St_write (Race_detail ''warEndTime'' war_end)])))))))
           | _ \<Rightarrow> Inl AttributeError))
        else Inr (f, [St_subheader River_race, St_info Not_in_river_race]))
      else Inr (f, [St_subheader River_race, St_info Not_in_river_race]))"

section \<open>Properties of the sanitization\<close>

lemma code_hash: "code CHR ''#'' = 35"
  by (simp add: code_def)

lemma code_underscore: "code CHR ''_'' = 95"
  by (simp add: code_def)

lemma word_char_underscore: "is_word_char CHR ''_''"
  by (simp add: is_word_char_def code_underscore)

lemma hash_not_word_char: "\<not> is_word_char CHR ''#''"
  by (simp add: is_word_char_def code_hash)

lemma replace_invalid_word: "list_all is_word_char (replace_invalid s)"
  by (induction s) (simp_all add: replace_invalid_def word_char_underscore)

lemma replace_invalid_fixed: "list_all is_word_char s \<Longrightarrow> replace_invalid s = s"
  by (induction s) (simp_all add: replace_invalid_def)

lemma strip_leading_hash_fixed: "list_all is_word_char s \<Longrightarrow> strip_leading_hash s = s"
proof (cases s)
  case Nil
  then show ?thesis by simp
next
  case (Cons c cs)
  assume "list_all is_word_char s"
  with Cons have "is_word_char c" by simp
  with hash_not_word_char have "c \<noteq> CHR ''#''" by auto
  with Cons show ?thesis by simp
qed

text \<open>
  C7. \<open>sanitize_filename\<close> removes one leading \<open>#\<close> and replaces every character outside
  \<open>[A-Za-z0-9_]\<close> by \<open>_\<close>; its output has only characters of that class, and applying
  it twice is the same as applying it once.
\<close>

theorem sanitize_filename_charset_idempotent:
  "sanitize_filename tag =
     map (\<lambda>c. if is_word_char c then c else CHR ''_'')
       (if tag \<noteq> [] \<and> hd tag = CHR ''#'' then tl tag else tag)
   \<and> list_all is_word_char (sanitize_filename tag)
   \<and> sanitize_filename (sanitize_filename tag) = sanitize_filename tag"
proof -
  have s: "strip_leading_hash tag = (if tag \<noteq> [] \<and> hd tag = CHR ''#'' then tl tag else tag)"
    by (cases tag) simp_all
  have w: "list_all is_word_char (sanitize_filename tag)"
    by (simp add: sanitize_filename_def replace_invalid_word)
  have "sanitize_filename (sanitize_filename tag) = sanitize_filename tag"
    using w by (simp add: sanitize_filename_def [of "sanitize_filename tag"]
        strip_leading_hash_fixed replace_invalid_fixed)
  with w s show ?thesis
    by (simp add: sanitize_filename_def replace_invalid_def)
qed

theorem sanitize_filename_charset_idempotent_witness:
  "sanitize_filename ''##a b'' = ''_a_b''
   \<and> list_all is_word_char (sanitize_filename ''##a b'')
   \<and> sanitize_filename (sanitize_filename ''##a b'') = sanitize_filename ''##a b''"
proof -
  note t = sanitize_filename_charset_idempotent [of "''##a b''"]
  from t have a: "sanitize_filename ''##a b'' = ''_a_b''"
    by (simp add: is_word_char_def code_def)
  from t have b: "list_all is_word_char (sanitize_filename ''##a b'')"
    by blast
  from t have c: "sanitize_filename (sanitize_filename ''##a b'') = sanitize_filename ''##a b''"
    by blast
  from a b c show ?thesis by blast
qed

section \<open>Properties of the clan tag and of the export file name\<close>

lemma code_text_of_word: "is_word_code (code c) = is_word_char c"
  by (simp add: is_word_code_def is_word_char_def)

lemma sanitize_filename_text_of: "sanitize_filename_text (text_of s) = sanitize_filename s"
proof (cases s)
  case Nil
  then show ?thesis
    by (simp add: sanitize_filename_text_def text_of_def sanitize_filename_def replace_invalid_def)
next
  case (Cons c cs)
  have h: "(code c = 35) = (c = CHR ''#'')"
    by (metis code_def code_hash of_char_eq_iff)
  have k: "char_of (code x) = x" for x
    by (simp add: code_def)
  have m: "map (\<lambda>c. if is_word_code c then char_of c else CHR ''_'') (map code xs)
      = replace_invalid xs" for xs
    by (induction xs) (simp_all add: replace_invalid_def code_text_of_word k)
  show ?thesis
    unfolding Cons sanitize_filename_text_def text_of_def sanitize_filename_def
    by (simp add: h m [symmetric] del: map_map)
qed

lemma case_pair_not_space: "ascii_case_pair c d \<Longrightarrow> \<not> is_space c \<and> \<not> is_space d"
  unfolding ascii_case_pair_def is_space_def by linarith

lemma case_pair_space: "c = d \<or> ascii_case_pair c d \<Longrightarrow> is_space c = is_space d"
  using case_pair_not_space by blast

lemma case_pair_upper: "c = d \<or> ascii_case_pair c d \<Longrightarrow> upper_of ucd c = upper_of ucd d"
proof (erule disjE)
  assume "c = d" then show ?thesis by simp
next
  assume "ascii_case_pair c d"
  then consider "97 \<le> c" "c \<le> 122" "d + 32 = c" | "97 \<le> d" "d \<le> 122" "c + 32 = d"
    unfolding ascii_case_pair_def by blast
  then show ?thesis
  proof cases
    case 1
    then have "upper_of ucd c = [d]" "upper_of ucd d = [d]"
      by (simp_all add: upper_of_def)
    then show ?thesis by simp
  next
    case 2
    then have "upper_of ucd d = [c]" "upper_of ucd c = [c]"
      by (simp_all add: upper_of_def)
    then show ?thesis by simp
  qed
qed

lemma dropWhile_all: "list_all P w \<Longrightarrow> dropWhile P (w @ s) = dropWhile P s"
  by (induction w) simp_all

lemma dropWhile_all2:
  assumes "list_all2 R xs ys" and "\<And>c d. R c d \<Longrightarrow> P c = P d"
  shows "list_all2 R (dropWhile P xs) (dropWhile P ys)"
  using assms(1)
proof (induction rule: list_all2_induct)
  case Nil
  then show ?case by simp
next
  case (Cons x xs y ys)
  from Cons(1) have "P x = P y" by (rule assms(2))
  with Cons show ?case by simp
qed

lemma strip_end: "list_all is_space w \<Longrightarrow> py_strip (s @ w) = py_strip s"
proof (cases "list_all is_space s")
  case True
  assume "list_all is_space w"
  with True have "list_all is_space (s @ w)" by simp
  then have "dropWhile is_space (s @ w) = []"
    by (simp only: dropWhile_eq_Nil_conv list_all_iff)
  moreover from True have "dropWhile is_space s = []"
    by (simp only: dropWhile_eq_Nil_conv list_all_iff)
  ultimately show ?thesis unfolding py_strip_def by (simp only:)
next
  case False
  assume w: "list_all is_space w"
  from False obtain x where "x \<in> set s" "\<not> is_space x" by (auto simp: list_all_iff)
  then have "dropWhile is_space (s @ w) = dropWhile is_space s @ w"
    by (simp add: dropWhile_append1)
  moreover from w have "list_all is_space (rev w)" by (simp add: list_all_iff)
  ultimately show ?thesis by (simp add: py_strip_def dropWhile_all)
qed

lemma strip_pad:
  "list_all is_space w1 \<Longrightarrow> list_all is_space w2 \<Longrightarrow> py_strip (w1 @ s @ w2) = py_strip s"
proof -
  assume a: "list_all is_space w1" and b: "list_all is_space w2"
  have "py_strip (w1 @ s @ w2) = py_strip (s @ w2)"
    using a by (simp add: py_strip_def dropWhile_all)
  with b show ?thesis by (simp add: strip_end)
qed

lemma strip_same_but_ascii_case:
  assumes "same_but_ascii_case s t"
  shows "same_but_ascii_case (py_strip s) (py_strip t)"
proof -
  let ?R = "\<lambda>c d. c = d \<or> ascii_case_pair c d"
  from assms have "list_all2 ?R s t" by (simp add: same_but_ascii_case_def)
  then have "list_all2 ?R (dropWhile is_space s) (dropWhile is_space t)"
    by (rule dropWhile_all2) (rule case_pair_space)
  then have "list_all2 ?R (rev (dropWhile is_space s)) (rev (dropWhile is_space t))"
    by (simp only: list_all2_rev)
  then have "list_all2 ?R (dropWhile is_space (rev (dropWhile is_space s)))
      (dropWhile is_space (rev (dropWhile is_space t)))"
    by (rule dropWhile_all2) (rule case_pair_space)
  then show ?thesis
    by (simp only: same_but_ascii_case_def py_strip_def list_all2_rev)
qed

lemma upper_same_but_ascii_case:
  assumes "same_but_ascii_case s t"
  shows "py_upper ucd s = py_upper ucd t"
proof -
  from assms have "list_all2 (\<lambda>c d. c = d \<or> ascii_case_pair c d) s t"
    by (simp add: same_but_ascii_case_def)
  then have "map (upper_of ucd) s = map (upper_of ucd) t"
  proof (induction rule: list_all2_induct)
    case Nil
    then show ?case by simp
  next
    case (Cons x xs y ys)
    from Cons(1) have "upper_of ucd x = upper_of ucd y" by (rule case_pair_upper)
    with Cons show ?case by simp
  qed
  then show ?thesis by (simp add: py_upper_def)
qed

text \<open>
  C10, as the specification states it, fails outside the ASCII letters, where upper-casing
  does not give one form to the two cases of a letter. The inputs \<open>#\<close> followed by the
  small sharp s (U+00DF) and \<open>#\<close> followed by the capital sharp s (U+1E9E) differ only in
  letter case; the first becomes the clan tag \<open>#SS\<close>, the second stays as it is, and the
  two tags are stored under the different names \<open>SS\<close> and \<open>_\<close>.
\<close>

theorem clan_tag_input_sharp_s_counterexample:
  "\<forall>ucd. same_but_letter_case [35, 223] [35, 7838]
     \<and> clan_tag_input ucd [35, 223] = [35, 83, 83]
     \<and> clan_tag_input ucd [35, 7838] = [35, 7838]
     \<and> clan_tag_input ucd [35, 223] \<noteq> clan_tag_input ucd [35, 7838]
     \<and> sanitize_filename_text (clan_tag_input ucd [35, 223]) = ''SS''
     \<and> sanitize_filename_text (clan_tag_input ucd [35, 7838]) = ''_''
     \<and> sanitize_filename_text (clan_tag_input ucd [35, 223])
         \<noteq> sanitize_filename_text (clan_tag_input ucd [35, 7838])"
proof
  fix ucd :: "nat \<Rightarrow> utext"
  have r: "same_but_letter_case [35, 223] [35, 7838]"
    by (simp add: same_but_letter_case_def sharp_s_pair_def)
  have a: "clan_tag_input ucd [35, 223] = [35, 83, 83]"
    by (simp add: clan_tag_input_def py_strip_def is_space_def py_upper_def upper_of_def)
  have b: "clan_tag_input ucd [35, 7838] = [35, 7838]"
    by (simp add: clan_tag_input_def py_strip_def is_space_def py_upper_def upper_of_def)
  have c: "sanitize_filename_text [35, 83, 83] = ''SS''"
    by (simp add: sanitize_filename_text_def is_word_code_def char_of_eq_iff)
  have d: "sanitize_filename_text [35, 7838] = ''_''"
    by (simp add: sanitize_filename_text_def is_word_code_def)
  from r a b c d show "same_but_letter_case [35, 223] [35, 7838]
     \<and> clan_tag_input ucd [35, 223] = [35, 83, 83]
     \<and> clan_tag_input ucd [35, 7838] = [35, 7838]
     \<and> clan_tag_input ucd [35, 223] \<noteq> clan_tag_input ucd [35, 7838]
     \<and> sanitize_filename_text (clan_tag_input ucd [35, 223]) = ''SS''
     \<and> sanitize_filename_text (clan_tag_input ucd [35, 7838]) = ''_''
     \<and> sanitize_filename_text (clan_tag_input ucd [35, 223])
         \<noteq> sanitize_filename_text (clan_tag_input ucd [35, 7838])"
    by simp
qed

text \<open>
  C10, amended. The clan tag typed by the operator is stripped of surrounding white space
  and upper-cased before anything uses it. So two inputs that differ only in the case of
  ASCII letters and in the white space around them give the same clan tag, which is the
  upper-cased text without the white space around it, and the same sanitized name of
  the contact store.
\<close>

theorem clan_tag_input_normalises:
  assumes "list_all is_space w1" and "list_all is_space w2"
    and "list_all is_space w3" and "list_all is_space w4"
    and "same_but_ascii_case s t"
  shows "clan_tag_input ucd (w1 @ s @ w2) = py_upper ucd (py_strip s)
     \<and> clan_tag_input ucd (w1 @ s @ w2) = clan_tag_input ucd (w3 @ t @ w4)
     \<and> sanitize_filename_text (clan_tag_input ucd (w1 @ s @ w2))
       = sanitize_filename_text (clan_tag_input ucd (w3 @ t @ w4))"
proof -
  have a: "clan_tag_input ucd (w1 @ s @ w2) = py_upper ucd (py_strip s)"
    using assms(1,2) by (simp add: clan_tag_input_def strip_pad)
  have "same_but_ascii_case (py_strip s) (py_strip t)"
    using assms(5) by (rule strip_same_but_ascii_case)
  then have "py_upper ucd (py_strip s) = py_upper ucd (py_strip t)"
    by (rule upper_same_but_ascii_case)
  also have "\<dots> = clan_tag_input ucd (w3 @ t @ w4)"
    using assms(3,4) by (simp add: clan_tag_input_def strip_pad)
  finally have b: "py_upper ucd (py_strip s) = clan_tag_input ucd (w3 @ t @ w4)" .
  from a b show ?thesis by simp
qed

theorem clan_tag_input_normalises_witness:
  "\<forall>ucd. clan_tag_input ucd (text_of ''  #qpYL8ycv '') = clan_tag_input ucd (text_of ''#QPYL8YCV'')
     \<and> clan_tag_input ucd (text_of ''#QPYL8YCV'') = text_of ''#QPYL8YCV''
     \<and> sanitize_filename_text (clan_tag_input ucd (text_of ''  #qpYL8ycv '')) = ''QPYL8YCV''
     \<and> clan_csv_path ''#QPYL8YCV'' = ''dados_clas/dados_jogadores_QPYL8YCV.csv''"
proof
  fix ucd :: "nat \<Rightarrow> utext"
  have sp: "list_all is_space (text_of ''  '')" "list_all is_space (text_of '' '')"
    "list_all is_space []"
    by (simp_all add: is_space_def text_of_def code_def)
  have rel: "same_but_ascii_case (text_of ''#qpYL8ycv'') (text_of ''#QPYL8YCV'')"
    by (simp add: same_but_ascii_case_def ascii_case_pair_def text_of_def code_def)
  have e: "clan_tag_input ucd (text_of ''#QPYL8YCV'') = text_of ''#QPYL8YCV''"
    by (simp add: clan_tag_input_def py_upper_def upper_of_def text_of_def code_def py_strip_def
        is_space_def)
  have ap: "text_of ''  #qpYL8ycv '' = text_of ''  '' @ text_of ''#qpYL8ycv'' @ text_of '' ''"
    by (simp add: text_of_def)
  note t = clan_tag_input_normalises [OF sp(1) sp(2) sp(3) sp(3) rel, of ucd]
  from t have a: "clan_tag_input ucd (text_of ''  #qpYL8ycv '') = clan_tag_input ucd (text_of ''#QPYL8YCV'')"
    unfolding ap append_Nil append_Nil2 by (elim conjE)
  have s: "sanitize_filename_text (text_of ''#QPYL8YCV'') = ''QPYL8YCV''"
    by (simp add: sanitize_filename_text_of sanitize_filename_def replace_invalid_def
        is_word_char_def code_def)
  have p: "clan_csv_path ''#QPYL8YCV'' = ''dados_clas/dados_jogadores_QPYL8YCV.csv''"
    by (simp add: clan_csv_path_def PLAYER_DATA_DIR_def sanitize_filename_def replace_invalid_def
        is_word_char_def code_def)
  from a e s p show "clan_tag_input ucd (text_of ''  #qpYL8ycv '') = clan_tag_input ucd (text_of ''#QPYL8YCV'')
     \<and> clan_tag_input ucd (text_of ''#QPYL8YCV'') = text_of ''#QPYL8YCV''
     \<and> sanitize_filename_text (clan_tag_input ucd (text_of ''  #qpYL8ycv '')) = ''QPYL8YCV''
     \<and> clan_csv_path ''#QPYL8YCV'' = ''dados_clas/dados_jogadores_QPYL8YCV.csv''"
    by simp
qed

text \<open>
  C5, as the specification states it, fails: the file name of the export starts with
  \<open>pendentes_\<close>, not with \<open>pending_\<close>.
\<close>

theorem download_filename_example_counterexample:
  "download_filename ''#QPYL8YCV'' \<lparr>year = 2024, month = 5, day = 1, hour = 9, minute = 3\<rparr>
     \<noteq> ''pending_QPYL8YCV_20240501_0903.csv''"
  by (simp add: download_filename_def)

text \<open>
  C5, amended. For every clan tag and export time the file name is \<open>pendentes_\<close>, the
  sanitized tag, \<open>_\<close>, the time as year (four digits), month, day, \<open>_\<close>, hour and minute
  (two digits each), and \<open>.csv\<close>; for the clan \<open>#QPYL8YCV\<close> at 2024-05-01 09:03 it is
  \<open>pendentes_QPYL8YCV_20240501_0903.csv\<close>.
\<close>

theorem download_filename_pattern:
  "download_filename tag now =
     ''pendentes_'' @ sanitize_filename tag @ ''_'' @
     pad4 (year now) @ pad2 (month now) @ pad2 (day now) @ ''_'' @
     pad2 (hour now) @ pad2 (minute now) @ ''.csv''
   \<and> download_filename ''#QPYL8YCV'' \<lparr>year = 2024, month = 5, day = 1, hour = 9, minute = 3\<rparr>
     = ''pendentes_QPYL8YCV_20240501_0903.csv''"
proof -
  have "download_filename ''#QPYL8YCV'' \<lparr>year = 2024, month = 5, day = 1, hour = 9, minute = 3\<rparr>
     = ''pendentes_QPYL8YCV_20240501_0903.csv''"
    by (simp add: download_filename_def strftime_def pad4_def pad2_def digit_def char_of_eq_iff
        sanitize_filename_def replace_invalid_def is_word_char_def code_def)
  then show ?thesis by (simp add: download_filename_def strftime_def)
qed

section \<open>Properties of the fetch\<close>

lemma fetch_api_data_failed:
  assumes "get_api_headers e tok = Some t"
    and "http_get e (BASE_API_URL @ ''/'' @ endpoint) t = No_response
       \<or> http_get e (BASE_API_URL @ ''/'' @ endpoint) t = Bad_status s None
       \<or> http_get e (BASE_API_URL @ ''/'' @ endpoint) t = Bad_status s (Some (PDict d))"
  shows "fst (fetch_api_data e endpoint tok) = Inr PNone"
  using assms by (auto simp: fetch_api_data_def)

lemma get_clan_members_of_fetch:
  "fst (fetch_api_data e (''clans/'' @ quote e tag @ ''/members'') tok) = Inr data \<Longrightarrow>
   fst (get_clan_members e tag tok) =
     (if truthy data then py_get data ''items'' (PList []) else Inr (PList []))"
  by (cases "fetch_api_data e (''clans/'' @ quote e tag @ ''/members'') tok")
    (simp add: get_clan_members_def)

text \<open>
  C2 does not hold of the code. When the request for the members fails (no response, or
  a failed status whose body is a JSON object or not JSON at all), \<open>get_clan_members\<close>
  returns the empty list and not \<open>None\<close>: the value it also returns for a clan that the
  remote system reports with no members.
\<close>

theorem get_clan_members_failure_gives_empty_list:
  assumes "get_api_headers e tok = Some t"
    and "http_get e (BASE_API_URL @ ''/clans/'' @ quote e tag @ ''/members'') t = No_response
       \<or> http_get e (BASE_API_URL @ ''/clans/'' @ quote e tag @ ''/members'') t = Bad_status s None
       \<or> http_get e (BASE_API_URL @ ''/clans/'' @ quote e tag @ ''/members'') t
            = Bad_status s (Some (PDict d))"
  shows "fst (get_clan_members e tag tok) = Inr (PList [])"
proof -
  have "fst (fetch_api_data e (''clans/'' @ quote e tag @ ''/members'') tok) = Inr PNone"
    using assms by (intro fetch_api_data_failed [where s = s and d = d]) simp_all
  then show ?thesis by (simp add: get_clan_members_of_fetch)
qed

theorem get_clan_members_failure_gives_empty_list_witness:
  "fst (get_clan_members
          \<lparr>getenv_token = None,
           http_get = (\<lambda>url token. Bad_status 403 (Some (PDict [(''reason'', PStr ''accessDenied'')]))),
           quote = (\<lambda>s. s)\<rparr>
          ''#QPYL8YCV'' (Some ''secret'')) = Inr (PList [])
   \<and> fst (get_clan_members
          \<lparr>getenv_token = None,
           http_get = (\<lambda>url token. Json (PDict [(''items'', PList [])])),
           quote = (\<lambda>s. s)\<rparr>
          ''#QPYL8YCV'' (Some ''secret'')) = Inr (PList [])"
proof -
  have h: "get_api_headers \<lparr>getenv_token = None,
           http_get = (\<lambda>url token. Bad_status 403 (Some (PDict [(''reason'', PStr ''accessDenied'')]))),
           quote = (\<lambda>s. s)\<rparr> (Some ''secret'') = Some ''secret''"
    by (simp add: get_api_headers_def)
  have a: "fst (get_clan_members
          \<lparr>getenv_token = None,
           http_get = (\<lambda>url token. Bad_status 403 (Some (PDict [(''reason'', PStr ''accessDenied'')]))),
           quote = (\<lambda>s. s)\<rparr>
          ''#QPYL8YCV'' (Some ''secret'')) = Inr (PList [])"
    by (rule get_clan_members_failure_gives_empty_list [OF h]) simp
  have b: "fst (get_clan_members
          \<lparr>getenv_token = None,
           http_get = (\<lambda>url token. Json (PDict [(''items'', PList [])])),
           quote = (\<lambda>s. s)\<rparr>
          ''#QPYL8YCV'' (Some ''secret'')) = Inr (PList [])"
    by (simp add: get_clan_members_def fetch_api_data_def get_api_headers_def)
  from a b show ?thesis by simp
qed

lemma get_clan_members_of_none:
  "fetch_api_data e (''clans/'' @ quote e tag @ ''/members'') tok = (Inr PNone, log) \<Longrightarrow>
   get_clan_members e tag tok = (Inr (PList []), log)"
  by (simp add: get_clan_members_def)

text \<open>
  C3 does not hold of the code. Whenever the request for the members fails, that is
  \<open>fetch_api_data\<close> returns \<open>None\<close>, and the request for the race raises no exception,
  the fetch button does not take the branch that clears the session: it stores an empty
  member list and the race (or an empty one), marks the clan as loaded, shows the warning
  that no member was found after the messages of the two requests, and goes on to the
  display.
\<close>

theorem fetch_button_failure_keeps_loaded_state:
  assumes "api_token ss \<noteq> []" and "clan_tag ss \<noteq> []" and "hd (clan_tag ss) = CHR ''#''"
    and "fetch_api_data e (''clans/'' @ quote e (clan_tag ss) @ ''/members'') (Some (api_token ss))
           = (Inr PNone, log1)"
    and "get_current_river_race e (clan_tag ss) (Some (api_token ss)) = (Inr race, log2)"
  shows "fetch_button e ss =
     (ss\<lparr>members_data := Some (PList []), river_race_data := Some (py_or race (PDict [])),
         data_loaded_for_tag := Some (clan_tag ss)\<rparr>,
      log1 @ log2 @ [St_warning (No_members_found (clan_tag ss))],
      Continue)"
proof -
  note m = get_clan_members_of_none [OF assms(4)]
  show ?thesis
    using assms(1-3) by (simp add: fetch_button_def Let_def m assms(5))
qed

text \<open>
  C9. For every event snapshot whose \<open>state\<close> is \<open>notInWar\<close>, the right column shows its
  heading and the information that the clan takes part in no river race, and nothing
  else: no table, no pending list, no download, and the file system is not touched.
\<close>

theorem river_race_panel_not_in_war:
  assumes "map_of snapshot ''state'' = Some (PStr ''notInWar'')"
  shows "river_race_panel pd (PDict snapshot) member_tags pressed current_tag now f =
     Inr (f, [St_subheader River_race, St_info Not_in_river_race])"
proof -
  from assms have "snapshot \<noteq> []" by auto
  with assms show ?thesis
    by (simp add: river_race_panel_def try_then_def)
qed

theorem fetch_button_failure_keeps_loaded_state_witness:
  "fetch_button
     \<lparr>getenv_token = None, http_get = (\<lambda>url token. No_response), quote = (\<lambda>s. s)\<rparr>
     \<lparr>api_token = ''secret'', clan_tag = ''#QPYL8YCV'',
      members_data = Some (PList [PDict [(''tag'', PStr ''#A'')]]),
      river_race_data = Some (PDict [(''state'', PStr ''full'')]),
      data_loaded_for_tag = Some ''#QPYL8YCV'', editor_keys = {}\<rparr>
   = (\<lparr>api_token = ''secret'', clan_tag = ''#QPYL8YCV'',
       members_data = Some (PList []),
       river_race_data = Some (PDict []),
       data_loaded_for_tag = Some ''#QPYL8YCV'', editor_keys = {}\<rparr>,
      [St_error (Api_connect_failed ''https://api.clashroyale.com/v1/clans/#QPYL8YCV/members''),
       St_error (Api_connect_failed ''https://api.clashroyale.com/v1/clans/#QPYL8YCV/currentriverrace''),
       St_warning (No_members_found ''#QPYL8YCV'')],
      Continue)"
proof -
  let ?e = "\<lparr>getenv_token = None, http_get = (\<lambda>url token. No_response), quote = (\<lambda>s. s)\<rparr>"
  let ?ss = "\<lparr>api_token = ''secret'', clan_tag = ''#QPYL8YCV'',
      members_data = Some (PList [PDict [(''tag'', PStr ''#A'')]]),
      river_race_data = Some (PDict [(''state'', PStr ''full'')]),
      data_loaded_for_tag = Some ''#QPYL8YCV'', editor_keys = {}\<rparr>"
  have v: "api_token ?ss \<noteq> []" "clan_tag ?ss \<noteq> []" "hd (clan_tag ?ss) = CHR ''#''"
    by simp_all
  have m: "fetch_api_data ?e (''clans/'' @ quote ?e (clan_tag ?ss) @ ''/members'')
             (Some (api_token ?ss))
           = (Inr PNone,
              [St_error (Api_connect_failed ''https://api.clashroyale.com/v1/clans/#QPYL8YCV/members'')])"
    by (simp add: fetch_api_data_def get_api_headers_def BASE_API_URL_def)
  have r: "get_current_river_race ?e (clan_tag ?ss) (Some (api_token ?ss))
           = (Inr (PDict []),
              [St_error (Api_connect_failed
                 ''https://api.clashroyale.com/v1/clans/#QPYL8YCV/currentriverrace'')])"
    by (simp add: get_current_river_race_def fetch_api_data_def get_api_headers_def
        BASE_API_URL_def py_or_def)
  from fetch_button_failure_keeps_loaded_state [OF v m r] show ?thesis
    by (simp add: py_or_def)
qed

theorem river_race_panel_not_in_war_witness:
  "river_race_panel
     \<lparr>read_text = (\<lambda>t. EmptyDataError), to_csv = (\<lambda>df. [])\<rparr>
     (PDict [(''state'', PStr ''notInWar''),
             (''clan'', PDict [(''participants'',
                  PList [PDict [(''tag'', PStr ''#A''), (''name'', PStr ''Ann''),
                                (''decksUsedToday'', PInt 0)]])])])
     {Some (PStr ''#A'')} True ''#QPYL8YCV''
     \<lparr>year = 2024, month = 5, day = 1, hour = 9, minute = 3\<rparr>
     \<lparr>dir_exists = False, mkdir_ok = True, write_ok = True, files = (\<lambda>p. None)\<rparr>
   = Inr (\<lparr>dir_exists = False, mkdir_ok = True, write_ok = True, files = (\<lambda>p. None)\<rparr>,
          [St_subheader River_race, St_info Not_in_river_race])"
  by (rule river_race_panel_not_in_war) simp

section \<open>Properties of the pending list\<close>

lemma cell_project: "c \<in> set cs \<Longrightarrow> cell (project cs r) c = cell r c"
  by (simp add: cell_def project_def map_of_map_restrict)

lemma select_rows:
  "select df cs = Inr out \<Longrightarrow> columns out = cs \<and> rows out = map (project cs) (rows df)"
  by (auto simp: select_def split: list.splits)


lemma missing_tags_today_set:
  "missing_tags_today pdf =
     {t. \<exists>r. r \<in> set (rows pdf) \<and> eq_zero (cell r ''decksUsedToday'') \<and> cell r ''tag'' = t}"
  by (auto simp: missing_tags_today_def missing_attack_today_def filter_rows_def)

lemma verified_info_rows:
  assumes "verified_missing_players_info member_tags pdf = Inr info"
    and "r \<in> set (rows info)"
  shows "\<exists>p. p \<in> set (rows pdf) \<and> eq_zero (cell p ''decksUsedToday'')
           \<and> cell p ''tag'' \<in> member_tags
           \<and> cell r ''tag'' = cell p ''tag'' \<and> cell r ''name'' = cell p ''name''"
proof -
  from assms(1) have
    "rows info = map (project [''tag'', ''name''])
       (rows (filter_rows (\<lambda>r. cell r ''tag'' \<in> verified_missing_tags member_tags pdf)
                (missing_attack_today pdf)))"
    unfolding verified_missing_players_info_def by (simp add: select_rows)
  with assms(2) obtain p where p: "r = project [''tag'', ''name''] p"
    "p \<in> set (rows pdf)" "eq_zero (cell p ''decksUsedToday'')"
    "cell p ''tag'' \<in> verified_missing_tags member_tags pdf"
    by (auto simp: filter_rows_def missing_attack_today_def)
  from p(4) have "cell p ''tag'' \<in> member_tags"
    by (simp add: verified_missing_tags_def)
  moreover from p(1) have "cell r ''tag'' = cell p ''tag''" "cell r ''name'' = cell p ''name''"
    by (simp_all add: cell_project)
  ultimately show ?thesis using p(2,3) by blast
qed

text \<open>
  C1. The tags of the participants whose \<open>decksUsedToday\<close> equals 0 are split in two
  by the set of the current members: the verified tags are those of the set that are
  member tags, the unverified tags those that are not; the two parts cover the set and
  do not meet. Every row of the pending list has a member tag and comes from a
  participant row with zero decks used today.
\<close>

theorem pending_partition:
  "missing_tags_today pdf =
     {t. \<exists>r. r \<in> set (rows pdf) \<and> eq_zero (cell r ''decksUsedToday'') \<and> cell r ''tag'' = t}
   \<and> verified_missing_tags member_tags pdf = {t \<in> missing_tags_today pdf. t \<in> member_tags}
   \<and> unverified_tags member_tags pdf = {t \<in> missing_tags_today pdf. t \<notin> member_tags}
   \<and> verified_missing_tags member_tags pdf \<union> unverified_tags member_tags pdf
       = missing_tags_today pdf
   \<and> verified_missing_tags member_tags pdf \<inter> unverified_tags member_tags pdf = {}
   \<and> (\<forall>info r. verified_missing_players_info member_tags pdf = Inr info \<longrightarrow>
          r \<in> set (rows info) \<longrightarrow>
          cell r ''tag'' \<in> member_tags \<and> cell r ''tag'' \<in> verified_missing_tags member_tags pdf \<and>
          (\<exists>p. p \<in> set (rows pdf) \<and> eq_zero (cell p ''decksUsedToday'')
               \<and> cell p ''tag'' = cell r ''tag'' \<and> cell p ''name'' = cell r ''name''))"
proof -
  have a: "verified_missing_tags member_tags pdf = {t \<in> missing_tags_today pdf. t \<in> member_tags}"
    by (auto simp: verified_missing_tags_def)
  have b: "unverified_tags member_tags pdf = {t \<in> missing_tags_today pdf. t \<notin> member_tags}"
    by (auto simp: unverified_tags_def)
  have c: "verified_missing_tags member_tags pdf \<union> unverified_tags member_tags pdf
       = missing_tags_today pdf"
    by (auto simp: verified_missing_tags_def unverified_tags_def)
  have d: "verified_missing_tags member_tags pdf \<inter> unverified_tags member_tags pdf = {}"
    by (auto simp: verified_missing_tags_def unverified_tags_def)
  have e: "cell r ''tag'' \<in> member_tags \<and> cell r ''tag'' \<in> verified_missing_tags member_tags pdf \<and>
          (\<exists>p. p \<in> set (rows pdf) \<and> eq_zero (cell p ''decksUsedToday'')
               \<and> cell p ''tag'' = cell r ''tag'' \<and> cell p ''name'' = cell r ''name'')"
    if "verified_missing_players_info member_tags pdf = Inr info" and "r \<in> set (rows info)"
    for info r
  proof -
    from verified_info_rows [OF that] obtain p where p: "p \<in> set (rows pdf)"
      "eq_zero (cell p ''decksUsedToday'')" "cell p ''tag'' \<in> member_tags"
      "cell r ''tag'' = cell p ''tag''" "cell r ''name'' = cell p ''name''"
      by blast
    from p(1,2) have "cell p ''tag'' \<in> missing_tags_today pdf"
      unfolding missing_tags_today_set by blast
    with p(3) have "cell p ''tag'' \<in> verified_missing_tags member_tags pdf"
      by (simp add: verified_missing_tags_def)
    with p show ?thesis by auto
  qed
  from missing_tags_today_set a b c d e show ?thesis by blast
qed

theorem pending_partition_witness:
  "verified_missing_tags {Some (PStr ''#A''), Some (PStr ''#B'')}
     \<lparr>columns = [''tag'', ''name'', ''decksUsedToday''],
      rows = [[(''tag'', Some (PStr ''#A'')), (''name'', Some (PStr ''Ann'')), (''decksUsedToday'', Some (PInt 0))],
              [(''tag'', Some (PStr ''#Z'')), (''name'', Some (PStr ''Zed'')), (''decksUsedToday'', Some (PInt 0))],
              [(''tag'', Some (PStr ''#B'')), (''name'', Some (PStr ''Bob'')), (''decksUsedToday'', Some (PInt 3))]]\<rparr>
     = {Some (PStr ''#A'')}
   \<and> unverified_tags {Some (PStr ''#A''), Some (PStr ''#B'')}
     \<lparr>columns = [''tag'', ''name'', ''decksUsedToday''],
      rows = [[(''tag'', Some (PStr ''#A'')), (''name'', Some (PStr ''Ann'')), (''decksUsedToday'', Some (PInt 0))],
              [(''tag'', Some (PStr ''#Z'')), (''name'', Some (PStr ''Zed'')), (''decksUsedToday'', Some (PInt 0))],
              [(''tag'', Some (PStr ''#B'')), (''name'', Some (PStr ''Bob'')), (''decksUsedToday'', Some (PInt 3))]]\<rparr>
     = {Some (PStr ''#Z'')}
   \<and> verified_missing_players_info {Some (PStr ''#A''), Some (PStr ''#B'')}
     \<lparr>columns = [''tag'', ''name'', ''decksUsedToday''],
      rows = [[(''tag'', Some (PStr ''#A'')), (''name'', Some (PStr ''Ann'')), (''decksUsedToday'', Some (PInt 0))],
              [(''tag'', Some (PStr ''#Z'')), (''name'', Some (PStr ''Zed'')), (''decksUsedToday'', Some (PInt 0))],
              [(''tag'', Some (PStr ''#B'')), (''name'', Some (PStr ''Bob'')), (''decksUsedToday'', Some (PInt 3))]]\<rparr>
     = Inr \<lparr>columns = [''tag'', ''name''],
            rows = [[(''tag'', Some (PStr ''#A'')), (''name'', Some (PStr ''Ann''))]]\<rparr>
   \<and> cell [(''tag'', Some (PStr ''#A'')), (''name'', Some (PStr ''Ann''))] ''tag''
       \<in> {Some (PStr ''#A''), Some (PStr ''#B'')}"
proof -
  let ?M = "{Some (PStr ''#A''), Some (PStr ''#B'')}"
  let ?P = "\<lparr>columns = [''tag'', ''name'', ''decksUsedToday''],
      rows = [[(''tag'', Some (PStr ''#A'')), (''name'', Some (PStr ''Ann'')), (''decksUsedToday'', Some (PInt 0))],
              [(''tag'', Some (PStr ''#Z'')), (''name'', Some (PStr ''Zed'')), (''decksUsedToday'', Some (PInt 0))],
              [(''tag'', Some (PStr ''#B'')), (''name'', Some (PStr ''Bob'')), (''decksUsedToday'', Some (PInt 3))]]\<rparr>"
  note t = pending_partition [of ?P ?M]
  have m: "missing_tags_today ?P = {Some (PStr ''#A''), Some (PStr ''#Z'')}"
    by (simp add: missing_tags_today_def missing_attack_today_def filter_rows_def cell_def)
  from t have "verified_missing_tags ?M ?P = {t \<in> missing_tags_today ?P. t \<in> ?M}" by blast
  with m have v: "verified_missing_tags ?M ?P = {Some (PStr ''#A'')}" by auto
  from t have "unverified_tags ?M ?P = {t \<in> missing_tags_today ?P. t \<notin> ?M}" by blast
  with m have u: "unverified_tags ?M ?P = {Some (PStr ''#Z'')}" by auto
  have i: "verified_missing_players_info ?M ?P
     = Inr \<lparr>columns = [''tag'', ''name''],
            rows = [[(''tag'', Some (PStr ''#A'')), (''name'', Some (PStr ''Ann''))]]\<rparr>"
    by (simp add: verified_missing_players_info_def v select_def filter_rows_def
        missing_attack_today_def project_def cell_def)
  from t have e: "\<forall>info r. verified_missing_players_info ?M ?P = Inr info \<longrightarrow>
          r \<in> set (rows info) \<longrightarrow>
          cell r ''tag'' \<in> ?M \<and> cell r ''tag'' \<in> verified_missing_tags ?M ?P \<and>
          (\<exists>p. p \<in> set (rows ?P) \<and> eq_zero (cell p ''decksUsedToday'')
               \<and> cell p ''tag'' = cell r ''tag'' \<and> cell p ''name'' = cell r ''name'')"
    by (elim conjE)
  have "[(''tag'', Some (PStr ''#A'')), (''name'', Some (PStr ''Ann''))]
      \<in> set (rows \<lparr>columns = [''tag'', ''name''],
            rows = [[(''tag'', Some (PStr ''#A'')), (''name'', Some (PStr ''Ann''))]]\<rparr>)"
    by simp
  from e [rule_format, OF i this]
  have "cell [(''tag'', Some (PStr ''#A'')), (''name'', Some (PStr ''Ann''))] ''tag'' \<in> ?M"
    by (elim conjE)
  with v u i show ?thesis by blast
qed

text \<open>
  C4 does not hold of the code. The default 0 is given only when no participant of the
  snapshot has the key \<open>decksUsedToday\<close>. When one participant has it and another does
  not, the frame has the column already, the cell of the second is missing, the
  comparison with 0 is false on it, and that participant is left out of the zero-deck
  set. The second half evaluates the case the code does handle.
\<close>

theorem decks_default_mixed_snapshot:
  "participants_df (PList
      [PDict [(''tag'', PStr ''#A''), (''name'', PStr ''Ann''), (''decksUsedToday'', PInt 2)],
       PDict [(''tag'', PStr ''#B''), (''name'', PStr ''Bob'')]])
   = Inr \<lparr>columns = [''tag'', ''name'', ''decksUsedToday''],
          rows = [[(''tag'', Some (PStr ''#A'')), (''name'', Some (PStr ''Ann'')),
                   (''decksUsedToday'', Some (PInt 2))],
                  [(''tag'', Some (PStr ''#B'')), (''name'', Some (PStr ''Bob'')),
                   (''decksUsedToday'', None)]]\<rparr>
   \<and> missing_tags_today
       \<lparr>columns = [''tag'', ''name'', ''decksUsedToday''],
        rows = [[(''tag'', Some (PStr ''#A'')), (''name'', Some (PStr ''Ann'')),
                 (''decksUsedToday'', Some (PInt 2))],
                [(''tag'', Some (PStr ''#B'')), (''name'', Some (PStr ''Bob'')),
                 (''decksUsedToday'', None)]]\<rparr> = {}
   \<and> participants_df (PList [PDict [(''tag'', PStr ''#B''), (''name'', PStr ''Bob'')]])
   = Inr \<lparr>columns = [''tag'', ''name'', ''decksUsedToday''],
          rows = [[(''tag'', Some (PStr ''#B'')), (''name'', Some (PStr ''Bob'')),
                   (''decksUsedToday'', Some (PInt 0))]]\<rparr>
   \<and> missing_tags_today
       \<lparr>columns = [''tag'', ''name'', ''decksUsedToday''],
        rows = [[(''tag'', Some (PStr ''#B'')), (''name'', Some (PStr ''Bob'')),
                 (''decksUsedToday'', Some (PInt 0))]]\<rparr> = {Some (PStr ''#B'')}"
proof -
  have a: "participants_df (PList
      [PDict [(''tag'', PStr ''#A''), (''name'', PStr ''Ann''), (''decksUsedToday'', PInt 2)],
       PDict [(''tag'', PStr ''#B''), (''name'', PStr ''Bob'')]])
   = Inr \<lparr>columns = [''tag'', ''name'', ''decksUsedToday''],
          rows = [[(''tag'', Some (PStr ''#A'')), (''name'', Some (PStr ''Ann'')),
                   (''decksUsedToday'', Some (PInt 2))],
                  [(''tag'', Some (PStr ''#B'')), (''name'', Some (PStr ''Bob'')),
                   (''decksUsedToday'', None)]]\<rparr>"
    by (simp add: participants_df_def frame_of_def DataFrame_def try_then_def)
  have b: "missing_tags_today
       \<lparr>columns = [''tag'', ''name'', ''decksUsedToday''],
        rows = [[(''tag'', Some (PStr ''#A'')), (''name'', Some (PStr ''Ann'')),
                 (''decksUsedToday'', Some (PInt 2))],
                [(''tag'', Some (PStr ''#B'')), (''name'', Some (PStr ''Bob'')),
                 (''decksUsedToday'', None)]]\<rparr> = {}"
    by (simp add: missing_tags_today_def missing_attack_today_def filter_rows_def cell_def)
  have c: "participants_df (PList [PDict [(''tag'', PStr ''#B''), (''name'', PStr ''Bob'')]])
   = Inr \<lparr>columns = [''tag'', ''name'', ''decksUsedToday''],
          rows = [[(''tag'', Some (PStr ''#B'')), (''name'', Some (PStr ''Bob'')),
                   (''decksUsedToday'', Some (PInt 0))]]\<rparr>"
    by (simp add: participants_df_def frame_of_def DataFrame_def try_then_def set_column_def cell_def)
  have d: "missing_tags_today
       \<lparr>columns = [''tag'', ''name'', ''decksUsedToday''],
        rows = [[(''tag'', Some (PStr ''#B'')), (''name'', Some (PStr ''Bob'')),
                 (''decksUsedToday'', Some (PInt 0))]]\<rparr> = {Some (PStr ''#B'')}"
    by (simp add: missing_tags_today_def missing_attack_today_def filter_rows_def cell_def)
  from a b c d show ?thesis by blast
qed

section \<open>Properties of the two joins with the contact store\<close>
























lemma stored_phone_kept:
  "(case map_option PStr x of None \<Rightarrow> Some d | Some y \<Rightarrow> Some y)
     = (case x of None \<Rightarrow> Some d | Some ph \<Rightarrow> Some (PStr ph))"
  by (cases x) simp_all







end
